theory Spec2Isabelle
  imports Main "HOL-Library.Word"
begin

section \<open>The FDP statistics tool (scripts/fdp\_stats.cc)\<close>

text \<open>
  The program is one \<open>main\<close> and one completion callback over the xNVMe library. The
  library is not part of the repository, so every call into it is an event of the run's
  trace, and what the call returns is read from an environment. A run is the list of
  events in program order together with the way \<open>main\<close> ends. Every library call is
  taken to return.
\<close>

subsection \<open>Constants and the response layout\<close>

definition BUF_SIZE :: nat where
  "BUF_SIZE = 2 ^ 20"

definition MAX_NR_QUEUE :: nat where
  "MAX_NR_QUEUE = 128"

definition NVME_IOMS_MO_SUNGJIN :: "8 word" where
  "NVME_IOMS_MO_SUNGJIN = 0x2"

definition NVME_IOMS_MO_SUNGJIN_READONLY :: "8 word" where
  "NVME_IOMS_MO_SUNGJIN_READONLY = 0x10"

text \<open>The reserved bytes of both structures are never read by the program and are left out.\<close>

record nvme_fdp_ruh_status_desc =
  pid :: "16 word"
  ruhid :: "16 word"
  earutr :: "32 word"
  ruamw :: "64 word"

record nvme_fdp_ruh_status =
  nruhsd :: "16 word"
  ruhss :: "nvme_fdp_ruh_status_desc list"

text \<open>\<open>sizeof(nvme_fdp_ruh_status)\<close>: 14 reserved bytes, the count, 16 slots of 32 bytes.\<close>

definition sizeof_ruh_status :: nat where
  "sizeof_ruh_status = 14 + 2 + 16 * (2 + 2 + 4 + 8 + 16)"

subsection \<open>Events\<close>

text \<open>An argument of a \<open>printf\<close> call: a string for \<open>%s\<close>, the number printed otherwise.\<close>

datatype arg = S string | I int

text \<open>The data pointer handed to the management command.\<close>

datatype dbuf = AllocatedBuf | LocalRuhStatus

text \<open>
  A command context is known by the queue it was taken from; \<open>cpl_status\<close> is what
  \<open>xnvme_cmd_ctx_cpl_status\<close> returns for it.
\<close>

record xnvme_cmd_ctx =
  ctx_queue :: nat
  cpl_status :: int

text \<open>
  A queue is known by the slot of \<open>queues_\<close> whose \<open>xnvme_queue_init\<close> call made it.
  \<open>Printf\<close> writes to stdout, \<open>Eprintf\<close> to stderr; the other events are the calls into
  the library with the arguments of the call site (the device handle left out, there is
  only one).
\<close>

datatype event =
    Printf string "arg list"
  | Eprintf string "arg list"
  | XCliPerr string int
  | XDevOpen string string int
  | XDevGetGeo
  | XQueueInit nat nat nat
  | XQueueTerm nat
  | XBufAlloc nat
  | XBufFree
  | XQueueGetCmdCtx nat
  | XDevGetNsid
  | XMgmtSend nat "64 word" "8 word" "16 word" dbuf nat
  | XQueueDrain nat
  | XCmdCtxPr xnvme_cmd_ctx
  | XQueuePutCmdCtx nat xnvme_cmd_ctx
  | XDevClose

fun is_xnvme :: "event \<Rightarrow> bool" where
  "is_xnvme (Printf f as) = False"
| "is_xnvme (Eprintf f as) = False"
| "is_xnvme e = True"

fun is_queue_init :: "event \<Rightarrow> bool" where
  "is_queue_init (XQueueInit d f i) = True"
| "is_queue_init e = False"

fun is_queue_term :: "event \<Rightarrow> bool" where
  "is_queue_term (XQueueTerm i) = True"
| "is_queue_term e = False"

fun is_mgmt_send :: "event \<Rightarrow> bool" where
  "is_mgmt_send (XMgmtSend q n m s p l) = True"
| "is_mgmt_send e = False"

text \<open>How \<open>main\<close> ends: with an exit status, or in undefined behaviour.\<close>

datatype outcome = Exit int | Undefined

subsection \<open>The environment\<close>

text \<open>
  What the library and the device do during one run. \<open>stack_ruh_status\<close> is the content
  of the local \<open>ruh_status\<close> at its declaration (the program gives it no initial value);
  \<open>dev_ruh_status\<close> is what the device has written over it by the time the drain
  returns, \<open>None\<close> when it never wrote. \<open>drain_cpl\<close> lists the completion statuses with
  which the engine calls the registered callback during the drain. \<open>get_cmd_ctx\<close> is
  false when \<open>xnvme_queue_get_cmd_ctx\<close> returns a null pointer (the pool of the queue is
  empty).
\<close>

record env =
  dev_open :: "string \<Rightarrow> bool"
  open_errno :: int
  geo_fn_addr :: "64 word"
  queue_init :: "nat \<Rightarrow> int"
  buf_alloc :: bool
  get_cmd_ctx :: bool
  dev_nsid :: "64 word"
  mgmt_send :: int
  drain_cpl :: "int list"
  drain :: int
  queue_term :: "nat \<Rightarrow> int"
  stack_ruh_status :: nvme_fdp_ruh_status
  dev_ruh_status :: "nvme_fdp_ruh_status option"

subsection \<open>The callback and the usage text\<close>

definition async_cb :: "xnvme_cmd_ctx \<Rightarrow> nat \<Rightarrow> event list" where
  "async_cb ctx cb_arg =
     [Printf ''hello i am async cb\<newline>'' []] @
     (let xqueue = cb_arg in
        (if cpl_status ctx \<noteq> 0 then [XCmdCtxPr ctx] else []) @
        [XQueuePutCmdCtx xqueue ctx])"

definition print_usage :: "string \<Rightarrow> event list" where
  "print_usage prog_name =
     [Eprintf ''FEMU FDP Statistics Tool\<newline>\<newline>'' [],
      Eprintf ''Usage: %s <device> [--reset|--read-only]\<newline>\<newline>'' [S prog_name],
      Eprintf ''Options:\<newline>'' [],
      Eprintf ''  --reset      Print stats and reset all counters (default)\<newline>'' [],
      Eprintf ''  --read-only  Print stats without resetting counters\<newline>\<newline>'' [],
      Eprintf ''Examples:\<newline>'' [],
      Eprintf ''  %s /dev/nvme0n1 --reset\<newline>'' [S prog_name],
      Eprintf ''  %s /dev/nvme0n1 --read-only\<newline>'' [S prog_name],
      Eprintf ''  %s /dev/nvme0n1\<newline>'' [S prog_name]]"

subsection \<open>The loops of main\<close>

text \<open>Events of a block, then the rest of the run.\<close>

definition pre :: "event list \<Rightarrow> event list \<times> outcome \<Rightarrow> event list \<times> outcome" where
  "pre evs r = (evs @ fst r, snd r)"

text \<open>
  Lines 120-129. The loop either returns from \<open>main\<close> at the first failing
  \<open>xnvme_queue_init\<close> (\<open>None\<close>), or ends with the FIFO \<open>xnvme_queues_\<close> filled.
\<close>

function init_queues :: "env \<Rightarrow> nat \<Rightarrow> nat list \<Rightarrow> event list \<times> nat list option" where
  "init_queues env i xnvme_queues =
     (if i < MAX_NR_QUEUE then
        (let qdepth = MAX_NR_QUEUE; err = queue_init env i in
           if err \<noteq> 0 then
             ([XQueueInit qdepth 0 i,
               Eprintf ''Error: Failed to initialize queue %d\<newline>'' [I (int i)],
               XDevClose], None)
           else
             (let r = init_queues env (i + 1) (xnvme_queues @ [i])
              in (XQueueInit qdepth 0 i # fst r, snd r)))
      else ([], Some xnvme_queues))"
  by pat_completeness auto
termination
  by (relation "measure (\<lambda>(env, i, q). MAX_NR_QUEUE - i)") auto

text \<open>Lines 136-138: the terminations of the buffer-allocation failure path.\<close>

function term_queues_quiet :: "nat \<Rightarrow> event list" where
  "term_queues_quiet i =
     (if i < MAX_NR_QUEUE then XQueueTerm i # term_queues_quiet (i + 1) else [])"
  by pat_completeness auto
termination
  by (relation "measure (\<lambda>i. MAX_NR_QUEUE - i)") auto

text \<open>Lines 196-201: the terminations of the cleanup.\<close>

function term_queues :: "env \<Rightarrow> nat \<Rightarrow> event list" where
  "term_queues env i =
     (if i < MAX_NR_QUEUE then
        (let err = queue_term env i in
           XQueueTerm i #
           (if err \<noteq> 0 then [Eprintf ''Warning: Failed to terminate queue %d\<newline>'' [I (int i)]]
            else []) @
           term_queues env (i + 1))
      else [])"
  by pat_completeness auto
termination
  by (relation "measure (\<lambda>(env, i). MAX_NR_QUEUE - i)") auto

text \<open>
  Lines 185-191. \<open>ruh_loop\<close> is the loop header: the values of \<open>i\<close> the body runs
  with. \<open>print_ruh_desc\<close> is the body: it reads slot \<open>i\<close> of \<open>ruhss\<close> and prints its
  four fields (\<open>earutr\<close> under \<open>%d\<close> and \<open>ruamw\<close> under \<open>%ld\<close>, so as signed numbers).
\<close>

function ruh_loop :: "nvme_fdp_ruh_status \<Rightarrow> nat \<Rightarrow> nat list" where
  "ruh_loop st i =
     (if i < unat (nruhsd st) \<and> i < 16 then i # ruh_loop st (i + 1) else [])"
  by pat_completeness auto
termination
  by (relation "measure (\<lambda>(st, i). 16 - i)") auto

definition print_ruh_desc :: "nvme_fdp_ruh_status \<Rightarrow> nat \<Rightarrow> event" where
  "print_ruh_desc st i =
     Printf ''%3d  %5d  %6d  %5ld\<newline>''
       [I (uint (pid (ruhss st ! i))),
        I (uint (ruhid (ruhss st ! i))),
        I (sint (earutr (ruhss st ! i))),
        I (sint (ruamw (ruhss st ! i)))]"

text \<open>Lines 180-192: the status-decoding step.\<close>

definition print_ruh_status :: "nvme_fdp_ruh_status \<Rightarrow> event list" where
  "print_ruh_status st =
     (if nruhsd st > 0 then
        [Printf ''\<newline>=== RUH Status ===\<newline>'' [],
         Printf ''Number of RUH Status Descriptors: %d\<newline>'' [I (uint (nruhsd st))],
         Printf ''PID  RUHID  EARUTR  RUAMW\<newline>'' [],
         Printf ''---  -----  ------  -----\<newline>'' []] @
        map (print_ruh_desc st) (ruh_loop st 0)
      else [])"

subsection \<open>main\<close>

text \<open>Lines 68-83: the optional flag.\<close>

datatype flag = Mode "8 word" string | Help | Unknown

definition parse_flag :: "string \<Rightarrow> flag" where
  "parse_flag a =
     (if a = ''--reset'' then Mode NVME_IOMS_MO_SUNGJIN ''RESET''
      else if a = ''--read-only'' then Mode NVME_IOMS_MO_SUNGJIN_READONLY ''READ-ONLY''
      else if a = ''-h'' \<or> a = ''--help'' then Help
      else Unknown)"

text \<open>The content of \<open>ruh_status\<close> when the program reads it (line 180).\<close>

definition ruh_status_read :: "env \<Rightarrow> nvme_fdp_ruh_status" where
  "ruh_status_read env =
     (case dev_ruh_status env of None \<Rightarrow> stack_ruh_status env | Some st \<Rightarrow> st)"

text \<open>Lines 171-177.\<close>

definition print_complete :: "8 word \<Rightarrow> event list" where
  "print_complete mo =
     [Printf ''\<newline>=== Command Complete ===\<newline>'' [],
      Printf ''Stats have been printed to FEMU output (check dmesg/journalctl)\<newline>'' [],
      (if mo = NVME_IOMS_MO_SUNGJIN then Printf ''Counters have been RESET\<newline>'' []
       else Printf ''Counters remain UNCHANGED (read-only mode)\<newline>'' [])]"

text \<open>
  Lines 147-169, with a context in hand: it is bound to the callback with the queue as
  the callback's argument, the command is sent and the queue drained. The response
  region of the command is the local \<open>ruh_status\<close>.
\<close>

definition submit_cmd :: "8 word \<Rightarrow> env \<Rightarrow> nat \<Rightarrow> event list" where
  "submit_cmd mo env xqueue =
     (let nsid = dev_nsid env;
          mos = (1 :: 16 word);
          err = mgmt_send env;
          err' = drain env
      in
        [XDevGetNsid,
         Printf ''NSID: %lu\<newline>'' [I (uint nsid)],
         Printf ''\<newline>Sending IO Management Send command (MO=0x%x)...\<newline>'' [I (uint mo)],
         XMgmtSend xqueue nsid mo mos LocalRuhStatus sizeof_ruh_status] @
        (if err \<noteq> 0 then
           [Eprintf ''Warning: xnvme_nvm_mgmt_send returned error: %d\<newline>'' [I err],
            Eprintf ''This may be expected if using read-only mode without FEMU patch.\<newline>'' []]
         else []) @
        [XQueueDrain xqueue] @
        concat (map (\<lambda>s. async_cb \<lparr>ctx_queue = xqueue, cpl_status = s\<rparr> xqueue)
                    (drain_cpl env)) @
        (if err' < 0 then [Eprintf ''Warning: Failed to drain queue: %d\<newline>'' [I err']]
         else []))"

text \<open>Lines 195-204.\<close>

definition cleanup :: "env \<Rightarrow> event list" where
  "cleanup env =
     [XBufFree] @
     term_queues env 0 @
     [XDevClose,
      Printf ''\<newline>Done.\<newline>'' []]"

text \<open>
  Lines 144-205, after the buffer was allocated. \<open>front()\<close> of an empty \<open>std::queue\<close> is
  undefined. The pointer that \<open>xnvme_queue_get_cmd_ctx\<close> returns is dereferenced
  unchecked on line 147: when it is null the run ends there, in undefined behaviour,
  before any later call.
\<close>

definition main_submit :: "8 word \<Rightarrow> env \<Rightarrow> nat list \<Rightarrow> event list \<times> outcome" where
  "main_submit mo env xnvme_queues =
     (case xnvme_queues of
        [] \<Rightarrow> ([], Undefined)
      | xqueue # rest \<Rightarrow>
          pre [XQueueGetCmdCtx xqueue]
            (if \<not> get_cmd_ctx env then ([], Undefined)
             else
               (submit_cmd mo env xqueue @
                print_complete mo @
                print_ruh_status (ruh_status_read env) @
                cleanup env,
                Exit 0)))"

text \<open>Lines 119-141: the queues and the buffer.\<close>

definition main_setup :: "8 word \<Rightarrow> env \<Rightarrow> event list \<times> outcome" where
  "main_setup mo env =
     (let r = init_queues env 0 [] in
        case snd r of
          None \<Rightarrow> (fst r, Exit 1)
        | Some xnvme_queues \<Rightarrow>
            pre (fst r @ [Printf ''Queues initialized\<newline>'' [], XBufAlloc BUF_SIZE])
              (if \<not> buf_alloc env then
                 ([Eprintf ''Error: Failed to allocate buffer\<newline>'' []] @
                  term_queues_quiet 0 @
                  [XDevClose], Exit 1)
               else main_submit mo env xnvme_queues))"

text \<open>Lines 85-88.\<close>

definition print_banner :: "string \<Rightarrow> string \<Rightarrow> 8 word \<Rightarrow> event list" where
  "print_banner device mode_str mo =
     [Printf ''=== FEMU FDP Statistics ===\<newline>'' [],
      Printf ''Device: %s\<newline>'' [S device],
      Printf ''Mode: %s (MO=0x%x)\<newline>'' [S mode_str, I (uint mo)],
      Printf ''===========================\<newline>\<newline>'' []]"

text \<open>Lines 107-110: the device did not open.\<close>

definition print_open_failed :: "string \<Rightarrow> env \<Rightarrow> event list" where
  "print_open_failed device env =
     [Eprintf ''Error: Failed to open device '%s'\<newline>'' [S device],
      Eprintf ''Hint: Try running with sudo, or check if the device exists.\<newline>'' [],
      Eprintf ''Hint: You can verify with: xnvme info %s\<newline>'' [S device],
      XCliPerr ''xnvme_dev_open()'' (open_errno env)]"

text \<open>
  Lines 113-117. \<open>print_sungjin\<close> prints the address of the library function
  \<open>xnvme_dev_get_geo\<close>.
\<close>

definition get_geo :: "env \<Rightarrow> event list" where
  "get_geo env =
     [Printf ''Device opened successfully\<newline>'' [],
      XDevGetGeo,
      Printf ''Device geometry retrieved\<newline>'' [],
      Printf ''%s %lu\<newline>'' [S ''xnvme_dev_get_geo'', I (uint (geo_fn_addr env))]]"

text \<open>Lines 85-117: the banner and the device; \<open>opts.async = "io_uring"\<close>, \<open>opts.direct = 0\<close>.\<close>

definition main_open :: "string \<Rightarrow> 8 word \<Rightarrow> string \<Rightarrow> env \<Rightarrow> event list \<times> outcome" where
  "main_open device mo mode_str env =
     pre (print_banner device mode_str mo @ [XDevOpen device ''io_uring'' 0])
       (if \<not> dev_open env device then (print_open_failed device env, Exit 1)
        else pre (get_geo env) (main_setup mo env))"

text \<open>
  \<open>main prog args env\<close>: \<open>prog\<close> is \<open>argv[0]\<close>, \<open>args\<close> the program arguments after it,
  so \<open>argc = 1 + length args\<close>.
\<close>

definition main :: "string \<Rightarrow> string list \<Rightarrow> env \<Rightarrow> event list \<times> outcome" where
  "main prog args env =
     (let argc = 1 + length args in
        if argc < 2 \<or> argc > 3 then (print_usage prog, Exit 1)
        else
          (let device = args ! 0 in
             case (if argc = 3 then parse_flag (args ! 1)
                   else Mode NVME_IOMS_MO_SUNGJIN ''RESET'') of
               Mode mo mode_str \<Rightarrow> main_open device mo mode_str env
             | Help \<Rightarrow> (print_usage prog, Exit 0)
             | Unknown \<Rightarrow>
                 (Eprintf ''Error: Unknown option '%s'\<newline>\<newline>'' [S (args ! 1)] #
                  print_usage prog, Exit 1)))"

subsection \<open>Classes of invocations and projections of a trace\<close>

text \<open>
  The three kinds of command line of the specification: an argument error, a help
  request, and a command line that runs the command.
\<close>

definition arg_error :: "string list \<Rightarrow> bool" where
  "arg_error args \<longleftrightarrow>
     length args < 1 \<or> length args > 2 \<or>
     (length args = 2 \<and> args ! 1 \<notin> {''--reset'', ''--read-only'', ''-h'', ''--help''})"

definition help_request :: "string list \<Rightarrow> bool" where
  "help_request args \<longleftrightarrow> length args = 2 \<and> args ! 1 \<in> {''-h'', ''--help''}"

definition runs_command :: "string list \<Rightarrow> bool" where
  "runs_command args \<longleftrightarrow>
     length args = 1 \<or> (length args = 2 \<and> args ! 1 \<in> {''--reset'', ''--read-only''})"

text \<open>
  The operation code as the specification words it: 0x10 under \<open>--read-only\<close>, 0x02 with
  no flag or under \<open>--reset\<close>. It is compared with the code's choice below.
\<close>

definition spec_op_code :: "string list \<Rightarrow> 8 word" where
  "spec_op_code args = (if length args = 2 \<and> args ! 1 = ''--read-only'' then 0x10 else 0x02)"

definition spec_mode_str :: "string list \<Rightarrow> string" where
  "spec_mode_str args =
     (if length args = 2 \<and> args ! 1 = ''--read-only'' then ''READ-ONLY'' else ''RESET'')"

definition queues_init_ok :: "env \<Rightarrow> bool" where
  "queues_init_ok env \<longleftrightarrow> (\<forall>i\<in>{0..<MAX_NR_QUEUE}. queue_init env i = 0)"

text \<open>The first queue whose initialization fails is \<open>k\<close>.\<close>

definition init_fails_at :: "env \<Rightarrow> nat \<Rightarrow> bool" where
  "init_fails_at env k \<longleftrightarrow>
     k < MAX_NR_QUEUE \<and> queue_init env k \<noteq> 0 \<and> (\<forall>j\<in>{0..<k}. queue_init env j = 0)"

text \<open>Setup succeeds: the device opens, all queues are created, the buffer is allocated.\<close>

definition setup_ok :: "string list \<Rightarrow> env \<Rightarrow> bool" where
  "setup_ok args env \<longleftrightarrow>
     runs_command args \<and> dev_open env (args ! 0) \<and> queues_init_ok env \<and> buf_alloc env"

text \<open>One iteration of the cleanup loop, for its closed form.\<close>

definition term_step :: "env \<Rightarrow> nat \<Rightarrow> event list" where
  "term_step env i =
     XQueueTerm i #
     (if queue_term env i \<noteq> 0
      then [Eprintf ''Warning: Failed to terminate queue %d\<newline>'' [I (int i)]] else [])"

text \<open>The buffer and device-close events of a trace, in order.\<close>

fun is_buf_or_close :: "event \<Rightarrow> bool" where
  "is_buf_or_close (XBufAlloc n) = True"
| "is_buf_or_close XBufFree = True"
| "is_buf_or_close XDevClose = True"
| "is_buf_or_close e = False"

fun is_stderr :: "event \<Rightarrow> bool" where
  "is_stderr (Eprintf f as) = True"
| "is_stderr e = False"

fun is_put_cmd_ctx :: "event \<Rightarrow> bool" where
  "is_put_cmd_ctx (XQueuePutCmdCtx q c) = True"
| "is_put_cmd_ctx e = False"

subsection \<open>Sample runs\<close>

definition sample_desc :: nvme_fdp_ruh_status_desc where
  "sample_desc = \<lparr>pid = 7, ruhid = 3, earutr = 0xFFFFFFFF, ruamw = 4096\<rparr>"

definition sample_status :: nvme_fdp_ruh_status where
  "sample_status = \<lparr>nruhsd = 200, ruhss = replicate 16 sample_desc\<rparr>"

text \<open>
  A run in which setup succeeds and everything after it reports an error; the device
  never writes the response.
\<close>

definition sample_env :: env where
  "sample_env =
     \<lparr>dev_open = (\<lambda>d. d = ''/dev/ng0n1''),
      open_errno = 2,
      geo_fn_addr = 0x401000,
      queue_init = (\<lambda>i. 0),
      buf_alloc = True,
      get_cmd_ctx = True,
      dev_nsid = 1,
      mgmt_send = - 22,
      drain_cpl = [1],
      drain = - 5,
      queue_term = (\<lambda>i. if i = 3 then - 16 else 0),
      stack_ruh_status = sample_status,
      dev_ruh_status = None\<rparr>"

text \<open>The same, but the initialization of queue 1 fails.\<close>

definition sample_env_init_fail :: env where
  "sample_env_init_fail = sample_env\<lparr>queue_init := (\<lambda>i. if i = 1 then - 12 else 0)\<rparr>"


text \<open>The same as the first, but the device that opens is the one named \<open>-h\<close>.\<close>

definition sample_env_dash_h :: env where
  "sample_env_dash_h = sample_env\<lparr>dev_open := (\<lambda>d. d = ''-h'')\<rparr>"

section \<open>Properties\<close>

subsection \<open>The loops in closed form\<close>

declare init_queues.simps [simp del] term_queues_quiet.simps [simp del]
  term_queues.simps [simp del] ruh_loop.simps [simp del]

lemma MAX_NR_QUEUE_pos: "0 < MAX_NR_QUEUE"
  by (simp add: MAX_NR_QUEUE_def)

lemma init_queues_all_ok:
  "\<forall>j\<in>{i..<MAX_NR_QUEUE}. queue_init env j = 0 \<Longrightarrow>
   init_queues env i q =
     (map (XQueueInit MAX_NR_QUEUE 0) [i..<MAX_NR_QUEUE], Some (q @ [i..<MAX_NR_QUEUE]))"
proof (induction env i q rule: init_queues.induct)
  case (1 env i q)
  show ?case
  proof (cases "i < MAX_NR_QUEUE")
    case True
    with "1.prems" have z: "queue_init env i = 0" by simp
    from "1.prems" have rest: "\<forall>j\<in>{i + 1..<MAX_NR_QUEUE}. queue_init env j = 0" by simp
    have "init_queues env (i + 1) (q @ [i]) =
            (map (XQueueInit MAX_NR_QUEUE 0) [i + 1..<MAX_NR_QUEUE],
             Some ((q @ [i]) @ [i + 1..<MAX_NR_QUEUE]))"
      using "1.IH" [OF True refl refl _ rest] z by simp
    with True z show ?thesis
      by (subst init_queues.simps) (simp add: upt_conv_Cons)
  next
    case False
    then show ?thesis
      by (subst init_queues.simps) simp
  qed
qed

lemma init_queues_first_failure:
  "i \<le> k \<Longrightarrow> k < MAX_NR_QUEUE \<Longrightarrow> queue_init env k \<noteq> 0 \<Longrightarrow>
   \<forall>j\<in>{i..<k}. queue_init env j = 0 \<Longrightarrow>
   init_queues env i q =
     (map (XQueueInit MAX_NR_QUEUE 0) [i..<k] @
      [XQueueInit MAX_NR_QUEUE 0 k,
       Eprintf ''Error: Failed to initialize queue %d\<newline>'' [I (int k)],
       XDevClose], None)"
proof (induction env i q rule: init_queues.induct)
  case (1 env i q)
  from "1.prems" have lt: "i < MAX_NR_QUEUE" by simp
  show ?case
  proof (cases "i = k")
    case True
    with "1.prems" lt show ?thesis
      by (subst init_queues.simps) simp
  next
    case False
    with "1.prems" have ik: "i + 1 \<le> k" and z: "queue_init env i = 0" by simp_all
    from "1.prems" have rest: "\<forall>j\<in>{i + 1..<k}. queue_init env j = 0" by simp
    have "init_queues env (i + 1) (q @ [i]) =
            (map (XQueueInit MAX_NR_QUEUE 0) [i + 1..<k] @
             [XQueueInit MAX_NR_QUEUE 0 k,
              Eprintf ''Error: Failed to initialize queue %d\<newline>'' [I (int k)],
              XDevClose], None)"
      using "1.IH" [OF lt refl refl _ ik "1.prems"(2) "1.prems"(3) rest] z by simp
    with lt z ik show ?thesis
      by (subst init_queues.simps) (simp add: upt_conv_Cons)
  qed
qed

lemma term_queues_quiet_eq: "term_queues_quiet i = map XQueueTerm [i..<MAX_NR_QUEUE]"
proof (induction i rule: term_queues_quiet.induct)
  case (1 i)
  then show ?case
    by (subst term_queues_quiet.simps) (simp add: upt_conv_Cons)
qed

lemma term_queues_eq: "term_queues env i = concat (map (term_step env) [i..<MAX_NR_QUEUE])"
proof (induction env i rule: term_queues.induct)
  case (1 env i)
  show ?case
  proof (cases "i < MAX_NR_QUEUE")
    case True
    have "term_queues env (i + 1) = concat (map (term_step env) [i + 1..<MAX_NR_QUEUE])"
      using "1.IH" [OF True refl] .
    with True show ?thesis
      by (subst term_queues.simps) (simp add: upt_conv_Cons term_step_def)
  next
    case False
    then show ?thesis
      by (subst term_queues.simps) simp
  qed
qed

lemma ruh_loop_eq: "ruh_loop st i = [i..<min (unat (nruhsd st)) 16]"
proof (induction st i rule: ruh_loop.induct)
  case (1 st i)
  show ?case
  proof (cases "i < unat (nruhsd st) \<and> i < 16")
    case True
    have "ruh_loop st (i + 1) = [i + 1..<min (unat (nruhsd st)) 16]"
      using "1.IH" [OF True] .
    with True show ?thesis
      by (subst ruh_loop.simps) (simp add: upt_conv_Cons)
  next
    case False
    then show ?thesis
      by (subst ruh_loop.simps) auto
  qed
qed


subsection \<open>The paths of main\<close>

lemma main_wrong_count:
  "length args < 1 \<or> length args > 2 \<Longrightarrow> main prog args env = (print_usage prog, Exit 1)"
  by (auto simp: main_def)

lemma main_unknown_flag:
  "length args = 2 \<Longrightarrow> args ! 1 \<notin> {''--reset'', ''--read-only'', ''-h'', ''--help''} \<Longrightarrow>
   main prog args env =
     (Eprintf ''Error: Unknown option '%s'\<newline>\<newline>'' [S (args ! 1)] # print_usage prog, Exit 1)"
  by (simp add: main_def parse_flag_def)

lemma main_help: "help_request args \<Longrightarrow> main prog args env = (print_usage prog, Exit 0)"
  by (auto simp: main_def parse_flag_def help_request_def)

lemma main_runs:
  "runs_command args \<Longrightarrow>
   main prog args env = main_open (args ! 0) (spec_op_code args) (spec_mode_str args) env"
  by (auto simp: main_def parse_flag_def runs_command_def spec_op_code_def spec_mode_str_def
      NVME_IOMS_MO_SUNGJIN_def NVME_IOMS_MO_SUNGJIN_READONLY_def)

lemma args_cases: "arg_error args \<or> help_request args \<or> runs_command args"
proof -
  have "length args < 1 \<or> length args = 1 \<or> length args = 2 \<or> length args > 2"
    by arith
  then show ?thesis
    unfolding arg_error_def help_request_def runs_command_def by blast
qed

lemma init_cases: "queues_init_ok env \<or> (\<exists>k. init_fails_at env k)"
proof (cases "queues_init_ok env")
  case True
  then show ?thesis by simp
next
  case False
  then have ex: "\<exists>k. k < MAX_NR_QUEUE \<and> queue_init env k \<noteq> 0"
    by (auto simp: queues_init_ok_def)
  define k where "k = (LEAST k. k < MAX_NR_QUEUE \<and> queue_init env k \<noteq> 0)"
  from ex have a: "k < MAX_NR_QUEUE \<and> queue_init env k \<noteq> 0"
    unfolding k_def by (rule LeastI_ex)
  have b: "queue_init env j = 0" if "j < k" for j
  proof (rule ccontr)
    assume "queue_init env j \<noteq> 0"
    with that a have "j < MAX_NR_QUEUE \<and> queue_init env j \<noteq> 0" by simp
    then have "k \<le> j" unfolding k_def by (rule Least_le)
    with that show False by simp
  qed
  from a b have "init_fails_at env k" by (simp add: init_fails_at_def)
  then show ?thesis by blast
qed

lemma upt_MAX: "[0..<MAX_NR_QUEUE] = 0 # [1..<MAX_NR_QUEUE]"
  by (simp add: upt_conv_Cons MAX_NR_QUEUE_pos)

lemma main_setup_init_fail:
  "init_fails_at env k \<Longrightarrow>
   main_setup mo env =
     (map (XQueueInit MAX_NR_QUEUE 0) [0..<k] @
      [XQueueInit MAX_NR_QUEUE 0 k,
       Eprintf ''Error: Failed to initialize queue %d\<newline>'' [I (int k)],
       XDevClose], Exit 1)"
  using init_queues_first_failure [of 0 k env "[]"]
  by (simp add: main_setup_def init_fails_at_def)

lemma main_setup_alloc_fail:
  "queues_init_ok env \<Longrightarrow> \<not> buf_alloc env \<Longrightarrow>
   main_setup mo env =
     (map (XQueueInit MAX_NR_QUEUE 0) [0..<MAX_NR_QUEUE] @
      [Printf ''Queues initialized\<newline>'' [], XBufAlloc BUF_SIZE,
       Eprintf ''Error: Failed to allocate buffer\<newline>'' []] @
      map XQueueTerm [0..<MAX_NR_QUEUE] @ [XDevClose], Exit 1)"
  using init_queues_all_ok [of 0 env "[]"]
  by (simp add: main_setup_def queues_init_ok_def pre_def term_queues_quiet_eq)

lemma main_setup_submit:
  "queues_init_ok env \<Longrightarrow> buf_alloc env \<Longrightarrow>
   main_setup mo env =
     pre (map (XQueueInit MAX_NR_QUEUE 0) [0..<MAX_NR_QUEUE] @
          [Printf ''Queues initialized\<newline>'' [], XBufAlloc BUF_SIZE])
       (main_submit mo env (0 # [1..<MAX_NR_QUEUE]))"
proof -
  assume ok: "queues_init_ok env" and b: "buf_alloc env"
  from ok have "init_queues env 0 [] =
      (map (XQueueInit MAX_NR_QUEUE 0) [0..<MAX_NR_QUEUE], Some ([] @ [0..<MAX_NR_QUEUE]))"
    by (intro init_queues_all_ok) (simp add: queues_init_ok_def)
  then have "init_queues env 0 [] =
      (map (XQueueInit MAX_NR_QUEUE 0) [0..<MAX_NR_QUEUE], Some (0 # [1..<MAX_NR_QUEUE]))"
    using upt_MAX by simp
  with b show ?thesis
    by (simp add: main_setup_def)
qed


subsection \<open>Projections of the blocks\<close>

lemma filter_concat_map_Nil:
  "(\<And>x. x \<in> set xs \<Longrightarrow> filter P (f x) = []) \<Longrightarrow> filter P (concat (map f xs)) = []"
  by (induction xs) simp_all

lemma filter_async_cb:
  "filter is_buf_or_close (async_cb c q) = []"
  "filter is_queue_init (async_cb c q) = []"
  "filter is_queue_term (async_cb c q) = []"
  "filter is_mgmt_send (async_cb c q) = []"
  by (simp_all add: async_cb_def)

lemma filter_callbacks:
  "filter is_buf_or_close (concat (map (\<lambda>s. async_cb (c s) q) cs)) = []"
  "filter is_queue_init (concat (map (\<lambda>s. async_cb (c s) q) cs)) = []"
  "filter is_queue_term (concat (map (\<lambda>s. async_cb (c s) q) cs)) = []"
  "filter is_mgmt_send (concat (map (\<lambda>s. async_cb (c s) q) cs)) = []"
  by (simp_all add: filter_concat_map_Nil filter_async_cb)

lemma filter_put_callbacks:
  "filter is_put_cmd_ctx (concat (map (\<lambda>s. async_cb (c s) q) cs)) =
     map (\<lambda>s. XQueuePutCmdCtx q (c s)) cs"
  by (induction cs) (simp_all add: async_cb_def)

lemma filter_print_ruh_status:
  "filter is_buf_or_close (print_ruh_status st) = []"
  "filter is_queue_init (print_ruh_status st) = []"
  "filter is_queue_term (print_ruh_status st) = []"
  "filter is_mgmt_send (print_ruh_status st) = []"
  "filter is_put_cmd_ctx (print_ruh_status st) = []"
  by (simp_all add: print_ruh_status_def print_ruh_desc_def filter_map o_def)

lemma filter_print_complete:
  "filter is_buf_or_close (print_complete mo) = []"
  "filter is_queue_init (print_complete mo) = []"
  "filter is_queue_term (print_complete mo) = []"
  "filter is_mgmt_send (print_complete mo) = []"
  "filter is_put_cmd_ctx (print_complete mo) = []"
  by (simp_all add: print_complete_def)

lemma filter_term_steps:
  "filter is_buf_or_close (concat (map (term_step env) xs)) = []"
  "filter is_queue_init (concat (map (term_step env) xs)) = []"
  "filter is_mgmt_send (concat (map (term_step env) xs)) = []"
  "filter is_put_cmd_ctx (concat (map (term_step env) xs)) = []"
  by (simp_all add: filter_concat_map_Nil term_step_def)

lemma filter_term_steps_term:
  "filter is_queue_term (concat (map (term_step env) xs)) = map XQueueTerm xs"
  by (induction xs) (simp_all add: term_step_def)

lemma filter_inits:
  "filter is_buf_or_close (map (XQueueInit d f) xs) = []"
  "filter is_queue_term (map (XQueueInit d f) xs) = []"
  "filter is_mgmt_send (map (XQueueInit d f) xs) = []"
  "filter is_put_cmd_ctx (map (XQueueInit d f) xs) = []"
  "filter is_queue_init (map (XQueueInit d f) xs) = map (XQueueInit d f) xs"
  by (simp_all add: filter_map o_def)

lemma filter_terms:
  "filter is_buf_or_close (map XQueueTerm xs) = []"
  "filter is_queue_init (map XQueueTerm xs) = []"
  "filter is_mgmt_send (map XQueueTerm xs) = []"
  "filter is_put_cmd_ctx (map XQueueTerm xs) = []"
  "filter is_queue_term (map XQueueTerm xs) = map XQueueTerm xs"
  by (simp_all add: filter_map o_def)

lemma filter_print_banner:
  "filter is_buf_or_close (print_banner d ms mo) = []"
  "filter is_queue_init (print_banner d ms mo) = []"
  "filter is_queue_term (print_banner d ms mo) = []"
  "filter is_mgmt_send (print_banner d ms mo) = []"
  "filter is_put_cmd_ctx (print_banner d ms mo) = []"
  by (simp_all add: print_banner_def)

lemma filter_print_open_failed:
  "filter is_buf_or_close (print_open_failed d env) = []"
  "filter is_queue_init (print_open_failed d env) = []"
  "filter is_queue_term (print_open_failed d env) = []"
  "filter is_mgmt_send (print_open_failed d env) = []"
  "filter is_put_cmd_ctx (print_open_failed d env) = []"
  by (simp_all add: print_open_failed_def)

lemma filter_get_geo:
  "filter is_buf_or_close (get_geo env) = []"
  "filter is_queue_init (get_geo env) = []"
  "filter is_queue_term (get_geo env) = []"
  "filter is_mgmt_send (get_geo env) = []"
  "filter is_put_cmd_ctx (get_geo env) = []"
  by (simp_all add: get_geo_def)

lemma filter_print_usage:
  "filter is_buf_or_close (print_usage p) = []"
  "filter is_queue_init (print_usage p) = []"
  "filter is_queue_term (print_usage p) = []"
  "filter is_mgmt_send (print_usage p) = []"
  "filter is_put_cmd_ctx (print_usage p) = []"
  "filter is_xnvme (print_usage p) = []"
  by (simp_all add: print_usage_def)

lemmas filter_blocks =
  filter_callbacks filter_put_callbacks filter_print_ruh_status filter_print_complete
  filter_term_steps filter_term_steps_term filter_inits filter_terms filter_print_banner
  filter_print_open_failed filter_get_geo filter_print_usage

subsection \<open>The submission phase\<close>

lemma main_submit_Cons:
  "get_cmd_ctx env \<Longrightarrow>
   main_submit mo env (x # xs) =
     (XQueueGetCmdCtx x # submit_cmd mo env x @ print_complete mo @
      print_ruh_status (ruh_status_read env) @ cleanup env, Exit 0)"
  by (simp add: main_submit_def pre_def)

lemma main_submit_null:
  "\<not> get_cmd_ctx env \<Longrightarrow> main_submit mo env (x # xs) = ([XQueueGetCmdCtx x], Undefined)"
  by (simp add: main_submit_def pre_def)

subsection \<open>The five runs of a command line that runs the command\<close>

lemma run_open_failed:
  "\<not> dev_open env d \<Longrightarrow>
   main_open d mo ms env =
     (print_banner d ms mo @ [XDevOpen d ''io_uring'' 0] @ print_open_failed d env, Exit 1)"
  by (simp add: main_open_def pre_def)

lemma run_init_failed:
  "dev_open env d \<Longrightarrow> init_fails_at env k \<Longrightarrow>
   main_open d mo ms env =
     (print_banner d ms mo @ [XDevOpen d ''io_uring'' 0] @ get_geo env @
      map (XQueueInit MAX_NR_QUEUE 0) [0..<k] @
      [XQueueInit MAX_NR_QUEUE 0 k,
       Eprintf ''Error: Failed to initialize queue %d\<newline>'' [I (int k)],
       XDevClose], Exit 1)"
  by (simp add: main_open_def pre_def main_setup_init_fail)

lemma run_alloc_failed:
  "dev_open env d \<Longrightarrow> queues_init_ok env \<Longrightarrow> \<not> buf_alloc env \<Longrightarrow>
   main_open d mo ms env =
     (print_banner d ms mo @ [XDevOpen d ''io_uring'' 0] @ get_geo env @
      map (XQueueInit MAX_NR_QUEUE 0) [0..<MAX_NR_QUEUE] @
      [Printf ''Queues initialized\<newline>'' [], XBufAlloc BUF_SIZE,
       Eprintf ''Error: Failed to allocate buffer\<newline>'' []] @
      map XQueueTerm [0..<MAX_NR_QUEUE] @ [XDevClose], Exit 1)"
  by (simp add: main_open_def pre_def main_setup_alloc_fail)

lemma run_no_ctx:
  "dev_open env d \<Longrightarrow> queues_init_ok env \<Longrightarrow> buf_alloc env \<Longrightarrow> \<not> get_cmd_ctx env \<Longrightarrow>
   main_open d mo ms env =
     (print_banner d ms mo @ [XDevOpen d ''io_uring'' 0] @ get_geo env @
      map (XQueueInit MAX_NR_QUEUE 0) [0..<MAX_NR_QUEUE] @
      [Printf ''Queues initialized\<newline>'' [], XBufAlloc BUF_SIZE, XQueueGetCmdCtx 0],
      Undefined)"
  by (simp add: main_open_def pre_def main_setup_submit main_submit_null)

lemma run_setup_ok:
  "dev_open env d \<Longrightarrow> queues_init_ok env \<Longrightarrow> buf_alloc env \<Longrightarrow> get_cmd_ctx env \<Longrightarrow>
   main_open d mo ms env =
     (print_banner d ms mo @ [XDevOpen d ''io_uring'' 0] @ get_geo env @
      map (XQueueInit MAX_NR_QUEUE 0) [0..<MAX_NR_QUEUE] @
      [Printf ''Queues initialized\<newline>'' [], XBufAlloc BUF_SIZE, XQueueGetCmdCtx 0] @
      submit_cmd mo env 0 @ print_complete mo @ print_ruh_status (ruh_status_read env) @
      cleanup env, Exit 0)"
  by (simp add: main_open_def pre_def main_setup_submit main_submit_Cons)

lemma main_open_exit:
  "snd (main_open d mo ms env) =
     (if dev_open env d \<and> queues_init_ok env \<and> buf_alloc env
      then (if get_cmd_ctx env then Exit 0 else Undefined) else Exit 1)"
proof (cases "dev_open env d")
  case False
  then show ?thesis by (simp add: run_open_failed)
next
  case op: True
  show ?thesis
  proof (cases "queues_init_ok env")
    case True
    with op show ?thesis
      by (cases "buf_alloc env"; cases "get_cmd_ctx env")
        (simp_all add: run_alloc_failed run_setup_ok run_no_ctx)
  next
    case False
    with init_cases obtain k where "init_fails_at env k" by blast
    with op False show ?thesis by (simp add: run_init_failed)
  qed
qed

subsection \<open>Every run of main\<close>

lemma not_runs_command:
  "arg_error args \<Longrightarrow> \<not> runs_command args"
  "help_request args \<Longrightarrow> \<not> runs_command args"
  by (auto simp: arg_error_def help_request_def runs_command_def)

lemma main_arg_error:
  "arg_error args \<Longrightarrow>
   main prog args env = (print_usage prog, Exit 1) \<or>
   main prog args env =
     (Eprintf ''Error: Unknown option '%s'\<newline>\<newline>'' [S (args ! 1)] # print_usage prog, Exit 1)"
  unfolding arg_error_def using main_wrong_count main_unknown_flag by blast

lemma main_cases [case_names ArgError Help OpenFailed InitFailed AllocFailed NoCtx SetupOk]:
  obtains
    "\<not> runs_command args" "filter is_xnvme (fst (main prog args env)) = []"
  | "\<not> runs_command args" "help_request args" "main prog args env = (print_usage prog, Exit 0)"
  | "runs_command args" "\<not> dev_open env (args ! 0)"
    "main prog args env =
       (print_banner (args ! 0) (spec_mode_str args) (spec_op_code args) @
        [XDevOpen (args ! 0) ''io_uring'' 0] @ print_open_failed (args ! 0) env, Exit 1)"
  | k where "runs_command args" "dev_open env (args ! 0)" "init_fails_at env k"
    "\<not> queues_init_ok env"
    "main prog args env =
       (print_banner (args ! 0) (spec_mode_str args) (spec_op_code args) @
        [XDevOpen (args ! 0) ''io_uring'' 0] @ get_geo env @
        map (XQueueInit MAX_NR_QUEUE 0) [0..<k] @
        [XQueueInit MAX_NR_QUEUE 0 k,
         Eprintf ''Error: Failed to initialize queue %d\<newline>'' [I (int k)],
         XDevClose], Exit 1)"
  | "runs_command args" "dev_open env (args ! 0)" "queues_init_ok env" "\<not> buf_alloc env"
    "main prog args env =
       (print_banner (args ! 0) (spec_mode_str args) (spec_op_code args) @
        [XDevOpen (args ! 0) ''io_uring'' 0] @ get_geo env @
        map (XQueueInit MAX_NR_QUEUE 0) [0..<MAX_NR_QUEUE] @
        [Printf ''Queues initialized\<newline>'' [], XBufAlloc BUF_SIZE,
         Eprintf ''Error: Failed to allocate buffer\<newline>'' []] @
        map XQueueTerm [0..<MAX_NR_QUEUE] @ [XDevClose], Exit 1)"
  | "runs_command args" "dev_open env (args ! 0)" "queues_init_ok env" "buf_alloc env"
    "\<not> get_cmd_ctx env"
    "main prog args env =
       (print_banner (args ! 0) (spec_mode_str args) (spec_op_code args) @
        [XDevOpen (args ! 0) ''io_uring'' 0] @ get_geo env @
        map (XQueueInit MAX_NR_QUEUE 0) [0..<MAX_NR_QUEUE] @
        [Printf ''Queues initialized\<newline>'' [], XBufAlloc BUF_SIZE, XQueueGetCmdCtx 0],
        Undefined)"
  | "runs_command args" "dev_open env (args ! 0)" "queues_init_ok env" "buf_alloc env"
    "get_cmd_ctx env"
    "main prog args env =
       (print_banner (args ! 0) (spec_mode_str args) (spec_op_code args) @
        [XDevOpen (args ! 0) ''io_uring'' 0] @ get_geo env @
        map (XQueueInit MAX_NR_QUEUE 0) [0..<MAX_NR_QUEUE] @
        [Printf ''Queues initialized\<newline>'' [], XBufAlloc BUF_SIZE, XQueueGetCmdCtx 0] @
        submit_cmd (spec_op_code args) env 0 @ print_complete (spec_op_code args) @
        print_ruh_status (ruh_status_read env) @ cleanup env, Exit 0)"
proof -
  consider (e) "arg_error args" | (h) "help_request args" | (r) "runs_command args"
    using args_cases by blast
  then show thesis
  proof cases
    case e
    with main_arg_error [of args prog env]
    have "filter is_xnvme (fst (main prog args env)) = []"
      by (auto simp: filter_blocks)
    with e that(1) show thesis by (simp add: not_runs_command)
  next
    case h
    with that(2) show thesis by (simp add: not_runs_command main_help)
  next
    case r
    note m = main_runs [OF r]
    show thesis
    proof (cases "dev_open env (args ! 0)")
      case False
      with r that(3) show thesis by (simp add: m run_open_failed)
    next
      case op: True
      show thesis
      proof (cases "queues_init_ok env")
        case False
        with init_cases obtain k where k: "init_fails_at env k" by blast
        with r op False that(4) show thesis by (simp add: m run_init_failed)
      next
        case ok: True
        show thesis
        proof (cases "buf_alloc env")
          case False
          with r op ok that(5) show thesis by (simp add: m run_alloc_failed)
        next
          case al: True
          show thesis
          proof (cases "get_cmd_ctx env")
            case False
            with r op ok al that(6) show thesis by (simp add: m run_no_ctx)
          next
            case True
            with r op ok al that(7) show thesis by (simp add: m run_setup_ok)
          qed
        qed
      qed
    qed
  qed
qed

lemma filter_submit_cmd:
  "filter is_buf_or_close (submit_cmd mo env x) = []"
  "filter is_queue_init (submit_cmd mo env x) = []"
  "filter is_queue_term (submit_cmd mo env x) = []"
  "filter is_mgmt_send (submit_cmd mo env x) =
     [XMgmtSend x (dev_nsid env) mo 1 LocalRuhStatus sizeof_ruh_status]"
  "filter is_put_cmd_ctx (submit_cmd mo env x) =
     map (\<lambda>s. XQueuePutCmdCtx x \<lparr>ctx_queue = x, cpl_status = s\<rparr>) (drain_cpl env)"
  by (simp_all add: submit_cmd_def Let_def filter_blocks)

lemma filter_cleanup:
  "filter is_buf_or_close (cleanup env) = [XBufFree, XDevClose]"
  "filter is_queue_init (cleanup env) = []"
  "filter is_queue_term (cleanup env) = map XQueueTerm [0..<MAX_NR_QUEUE]"
  "filter is_mgmt_send (cleanup env) = []"
  "filter is_put_cmd_ctx (cleanup env) = []"
  by (simp_all add: cleanup_def term_queues_eq filter_blocks)

lemma xnvme_projections:
  "filter is_xnvme xs = [] \<Longrightarrow> filter is_buf_or_close xs = []"
  "filter is_xnvme xs = [] \<Longrightarrow> filter is_queue_init xs = []"
  "filter is_xnvme xs = [] \<Longrightarrow> filter is_queue_term xs = []"
  "filter is_xnvme xs = [] \<Longrightarrow> filter is_mgmt_send xs = []"
  "filter is_xnvme xs = [] \<Longrightarrow> filter is_put_cmd_ctx xs = []"
proof -
  have a: "is_buf_or_close e \<Longrightarrow> is_xnvme e" "is_queue_init e \<Longrightarrow> is_xnvme e"
    "is_queue_term e \<Longrightarrow> is_xnvme e" "is_mgmt_send e \<Longrightarrow> is_xnvme e"
    "is_put_cmd_ctx e \<Longrightarrow> is_xnvme e" for e
    by (cases e; simp)+
  show "filter is_xnvme xs = [] \<Longrightarrow> filter is_buf_or_close xs = []"
    "filter is_xnvme xs = [] \<Longrightarrow> filter is_queue_init xs = []"
    "filter is_xnvme xs = [] \<Longrightarrow> filter is_queue_term xs = []"
    "filter is_xnvme xs = [] \<Longrightarrow> filter is_mgmt_send xs = []"
    "filter is_xnvme xs = [] \<Longrightarrow> filter is_put_cmd_ctx xs = []"
    using a by (auto simp: filter_empty_conv)
qed

lemma main_mgmt_send:
  "filter is_mgmt_send (fst (main prog args env)) =
     (if setup_ok args env \<and> get_cmd_ctx env
      then [XMgmtSend 0 (dev_nsid env) (spec_op_code args) 1 LocalRuhStatus sizeof_ruh_status]
      else [])"
  by (cases rule: main_cases [of args prog env])
    (simp_all add: setup_ok_def filter_blocks filter_submit_cmd filter_cleanup xnvme_projections)

lemma main_put_cmd_ctx:
  "filter is_put_cmd_ctx (fst (main prog args env)) =
     (if setup_ok args env \<and> get_cmd_ctx env
      then map (\<lambda>s. XQueuePutCmdCtx 0 \<lparr>ctx_queue = 0, cpl_status = s\<rparr>) (drain_cpl env)
      else [])"
  by (cases rule: main_cases [of args prog env])
    (simp_all add: setup_ok_def filter_blocks filter_submit_cmd filter_cleanup xnvme_projections)

subsection \<open>The printed text of the blocks\<close>

lemma print_ruh_status_rows:
  "print_ruh_status st =
     (if nruhsd st = 0 then []
      else
        [Printf ''\<newline>=== RUH Status ===\<newline>'' [],
         Printf ''Number of RUH Status Descriptors: %d\<newline>'' [I (uint (nruhsd st))],
         Printf ''PID  RUHID  EARUTR  RUAMW\<newline>'' [],
         Printf ''---  -----  ------  -----\<newline>'' []] @
        map (\<lambda>i. Printf ''%3d  %5d  %6d  %5ld\<newline>''
                   [I (uint (pid (ruhss st ! i))),
                    I (uint (ruhid (ruhss st ! i))),
                    I (sint (earutr (ruhss st ! i))),
                    I (sint (ruamw (ruhss st ! i)))])
            [0..<min (unat (nruhsd st)) 16])"
proof -
  have z: "0 < nruhsd st \<longleftrightarrow> nruhsd st \<noteq> 0"
    by (simp add: word_gt_0)
  have b: "print_ruh_desc st = (\<lambda>i. Printf ''%3d  %5d  %6d  %5ld\<newline>''
                   [I (uint (pid (ruhss st ! i))),
                    I (uint (ruhid (ruhss st ! i))),
                    I (sint (earutr (ruhss st ! i))),
                    I (sint (ruamw (ruhss st ! i)))])"
    by (rule ext) (simp add: print_ruh_desc_def)
  show ?thesis
    unfolding print_ruh_status_def z ruh_loop_eq b by simp
qed

lemma stderr_term_steps:
  "filter is_stderr (concat (map (term_step env) xs)) =
     concat (map (\<lambda>i. if queue_term env i \<noteq> 0
                        then [Eprintf ''Warning: Failed to terminate queue %d\<newline>'' [I (int i)]]
                        else []) xs)"
  by (induction xs) (simp_all add: term_step_def)

lemma stderr_blocks:
  "filter is_stderr (print_banner d ms mo) = []"
  "filter is_stderr (get_geo env) = []"
  "filter is_stderr (map (XQueueInit n f) xs) = []"
  "filter is_stderr (print_complete mo) = []"
  "filter is_stderr (print_ruh_status st) = []"
  "filter is_stderr (concat (map (\<lambda>s. async_cb (c s) q) cs)) = []"
  by (simp_all add: print_banner_def get_geo_def print_complete_def print_ruh_status_def
      print_ruh_desc_def filter_map o_def filter_concat_map_Nil async_cb_def)

lemma stderr_submit_cmd:
  "filter is_stderr (submit_cmd mo env x) =
     (if mgmt_send env \<noteq> 0
      then [Eprintf ''Warning: xnvme_nvm_mgmt_send returned error: %d\<newline>'' [I (mgmt_send env)],
            Eprintf ''This may be expected if using read-only mode without FEMU patch.\<newline>'' []]
      else []) @
     (if drain env < 0 then [Eprintf ''Warning: Failed to drain queue: %d\<newline>'' [I (drain env)]]
      else [])"
  by (simp add: submit_cmd_def Let_def stderr_blocks)

lemma stderr_cleanup:
  "filter is_stderr (cleanup env) =
     concat (map (\<lambda>i. if queue_term env i \<noteq> 0
                        then [Eprintf ''Warning: Failed to terminate queue %d\<newline>'' [I (int i)]]
                        else []) [0..<MAX_NR_QUEUE])"
  by (simp add: cleanup_def term_queues_eq stderr_term_steps)

lemma setup_ok_run:
  "setup_ok args env \<Longrightarrow> get_cmd_ctx env \<Longrightarrow>
   main prog args env =
     (print_banner (args ! 0) (spec_mode_str args) (spec_op_code args) @
      [XDevOpen (args ! 0) ''io_uring'' 0] @ get_geo env @
      map (XQueueInit MAX_NR_QUEUE 0) [0..<MAX_NR_QUEUE] @
      [Printf ''Queues initialized\<newline>'' [], XBufAlloc BUF_SIZE, XQueueGetCmdCtx 0] @
      submit_cmd (spec_op_code args) env 0 @ print_complete (spec_op_code args) @
      print_ruh_status (ruh_status_read env) @ cleanup env, Exit 0)"
  by (simp add: setup_ok_def main_runs run_setup_ok)


lemma main_stderr_setup_ok:
  "setup_ok args env \<Longrightarrow> get_cmd_ctx env \<Longrightarrow>
   filter is_stderr (fst (main prog args env)) =
     (if mgmt_send env \<noteq> 0
      then [Eprintf ''Warning: xnvme_nvm_mgmt_send returned error: %d\<newline>'' [I (mgmt_send env)],
            Eprintf ''This may be expected if using read-only mode without FEMU patch.\<newline>'' []]
      else []) @
     (if drain env < 0 then [Eprintf ''Warning: Failed to drain queue: %d\<newline>'' [I (drain env)]]
      else []) @
     concat (map (\<lambda>i. if queue_term env i \<noteq> 0
                        then [Eprintf ''Warning: Failed to terminate queue %d\<newline>'' [I (int i)]]
                        else []) [0..<MAX_NR_QUEUE])"
  by (simp add: setup_ok_run stderr_blocks stderr_submit_cmd stderr_cleanup)

lemma usage_line_not_in_blocks:
  "Eprintf ''Usage: %s <device> [--reset|--read-only]\<newline>\<newline>'' as \<notin> set (print_banner d ms mo)"
  "Eprintf ''Usage: %s <device> [--reset|--read-only]\<newline>\<newline>'' as \<notin> set (print_open_failed d env)"
  "Eprintf ''Usage: %s <device> [--reset|--read-only]\<newline>\<newline>'' as \<notin> set (get_geo env)"
  "Eprintf ''Usage: %s <device> [--reset|--read-only]\<newline>\<newline>'' as \<notin> set (submit_cmd mo env x)"
  "Eprintf ''Usage: %s <device> [--reset|--read-only]\<newline>\<newline>'' as \<notin> set (print_complete mo)"
  "Eprintf ''Usage: %s <device> [--reset|--read-only]\<newline>\<newline>'' as \<notin> set (print_ruh_status st)"
  "Eprintf ''Usage: %s <device> [--reset|--read-only]\<newline>\<newline>'' as \<notin> set (cleanup env)"
  by (auto simp: print_banner_def print_open_failed_def get_geo_def submit_cmd_def Let_def
      async_cb_def print_complete_def print_ruh_status_def print_ruh_desc_def cleanup_def
      term_queues_eq term_step_def split: if_splits)

lemma usage_line_not_in_run:
  "runs_command args \<Longrightarrow>
   Eprintf ''Usage: %s <device> [--reset|--read-only]\<newline>\<newline>'' as
     \<notin> set (fst (main prog args env))"
  by (cases rule: main_cases [of args prog env])
    (auto simp: usage_line_not_in_blocks)

lemma sample_setup_ok: "setup_ok [''/dev/ng0n1''] sample_env"
  by (simp add: setup_ok_def runs_command_def queues_init_ok_def sample_env_def)


section \<open>The properties of the specification\<close>





text \<open>
  C8. The callback prints the context if and only if its completion status is not zero,
  and on both branches it hands the context back exactly once, to the queue it received
  as its argument. (Its greeting line is printed on every call.) In every run of \<open>main\<close>
  that queue is the one the context was taken from.
\<close>

theorem async_cb_contract:
  "((\<exists>c. XCmdCtxPr c \<in> set (async_cb ctx cb_arg)) \<longleftrightarrow> cpl_status ctx \<noteq> 0) \<and>
   (cpl_status ctx \<noteq> 0 \<longrightarrow> XCmdCtxPr ctx \<in> set (async_cb ctx cb_arg)) \<and>
   filter is_put_cmd_ctx (async_cb ctx cb_arg) = [XQueuePutCmdCtx cb_arg ctx] \<and>
   (XQueuePutCmdCtx q c \<in> set (fst (main prog args env)) \<longrightarrow> q = ctx_queue c)"
proof -
  have "q = ctx_queue c" if "XQueuePutCmdCtx q c \<in> set (fst (main prog args env))"
  proof -
    from that have "XQueuePutCmdCtx q c \<in> set (filter is_put_cmd_ctx (fst (main prog args env)))"
      by simp
    then show ?thesis
      by (auto simp: main_put_cmd_ctx split: if_splits)
  qed
  then show ?thesis
    by (auto simp: async_cb_def)
qed

theorem async_cb_contract_witness:
  "cpl_status \<lparr>ctx_queue = 0, cpl_status = 1\<rparr> \<noteq> 0 \<and>
   XCmdCtxPr \<lparr>ctx_queue = 0, cpl_status = 1\<rparr> \<in> set (async_cb \<lparr>ctx_queue = 0, cpl_status = 1\<rparr> 0) \<and>
   \<not> (\<exists>c. XCmdCtxPr c \<in> set (async_cb \<lparr>ctx_queue = 0, cpl_status = 0\<rparr> 0)) \<and>
   filter is_put_cmd_ctx (async_cb \<lparr>ctx_queue = 0, cpl_status = 0\<rparr> 0) =
     [XQueuePutCmdCtx 0 \<lparr>ctx_queue = 0, cpl_status = 0\<rparr>] \<and>
   XQueuePutCmdCtx 0 \<lparr>ctx_queue = 0, cpl_status = 1\<rparr>
     \<in> set (fst (main ''fdp_stats'' [''/dev/ng0n1''] sample_env)) \<and>
   (0 :: nat) = ctx_queue \<lparr>ctx_queue = 0, cpl_status = 1\<rparr>"
proof -
  have a: "setup_ok [''/dev/ng0n1''] sample_env"
    by (simp add: setup_ok_def runs_command_def queues_init_ok_def sample_env_def)
  have "XQueuePutCmdCtx 0 \<lparr>ctx_queue = 0, cpl_status = 1\<rparr>
     \<in> set (filter is_put_cmd_ctx (fst (main ''fdp_stats'' [''/dev/ng0n1''] sample_env)))"
    unfolding main_put_cmd_ctx using a by (simp add: sample_env_def)
  then have b: "XQueuePutCmdCtx 0 \<lparr>ctx_queue = 0, cpl_status = 1\<rparr>
     \<in> set (fst (main ''fdp_stats'' [''/dev/ng0n1''] sample_env))"
    by simp
  show ?thesis
    using b
      async_cb_contract [of "\<lparr>ctx_queue = 0, cpl_status = 1\<rparr>" 0 0
        "\<lparr>ctx_queue = 0, cpl_status = 1\<rparr>" "''fdp_stats''" "[''/dev/ng0n1'']" sample_env]
      async_cb_contract [of "\<lparr>ctx_queue = 0, cpl_status = 0\<rparr>" 0]
    by simp
qed






text \<open>
  C6. The management commands of a run are none when setup does not succeed or no
  context is obtained, and otherwise the single call whose namespace id is the one read from the device, whose
  operation code is 0x10 under \<open>--read-only\<close> and 0x02 with no flag or under \<open>--reset\<close>,
  and whose select field is 1.
\<close>

theorem mgmt_send_arguments:
  "filter is_mgmt_send (fst (main prog args env)) =
     (if setup_ok args env \<and> get_cmd_ctx env
      then [XMgmtSend 0 (dev_nsid env)
              (if length args = 2 \<and> args ! 1 = ''--read-only'' then 0x10 else 0x02)
              1 LocalRuhStatus sizeof_ruh_status]
      else [])"
  by (simp add: main_mgmt_send spec_op_code_def)

theorem mgmt_send_arguments_witness:
  "setup_ok [''/dev/ng0n1''] sample_env \<and> get_cmd_ctx sample_env \<and>
   filter is_mgmt_send (fst (main ''fdp_stats'' [''/dev/ng0n1''] sample_env)) =
     [XMgmtSend 0 (dev_nsid sample_env) 0x02 1 LocalRuhStatus sizeof_ruh_status] \<and>
   setup_ok [''/dev/ng0n1'', ''--reset''] sample_env \<and>
   filter is_mgmt_send (fst (main ''fdp_stats'' [''/dev/ng0n1'', ''--reset''] sample_env)) =
     [XMgmtSend 0 (dev_nsid sample_env) 0x02 1 LocalRuhStatus sizeof_ruh_status] \<and>
   setup_ok [''/dev/ng0n1'', ''--read-only''] sample_env \<and>
   filter is_mgmt_send (fst (main ''fdp_stats'' [''/dev/ng0n1'', ''--read-only''] sample_env)) =
     [XMgmtSend 0 (dev_nsid sample_env) 0x10 1 LocalRuhStatus sizeof_ruh_status]"
proof -
  have a: "setup_ok [''/dev/ng0n1'', ''--reset''] sample_env"
    "setup_ok [''/dev/ng0n1'', ''--read-only''] sample_env"
    by (simp_all add: setup_ok_def runs_command_def queues_init_ok_def sample_env_def)
  have c: "get_cmd_ctx sample_env"
    by (simp add: sample_env_def)
  show ?thesis
    using sample_setup_ok a c
      mgmt_send_arguments [of "''fdp_stats''" "[''/dev/ng0n1'']" sample_env]
      mgmt_send_arguments [of "''fdp_stats''" "[''/dev/ng0n1'', ''--reset'']" sample_env]
      mgmt_send_arguments [of "''fdp_stats''" "[''/dev/ng0n1'', ''--read-only'']" sample_env]
    by simp
qed

text \<open>
  C3. The loop of the status-decoding step runs its body for the indices
  \<open>0 .. min(nruhsd, 16) - 1\<close> and no other, and the body at index \<open>i\<close> prints the four
  fields of slot \<open>i\<close>: the step prints \<open>min(nruhsd, 16)\<close> descriptors after the four
  header lines, 16 of them with \<open>nruhsd = 200\<close>. It reads no slot at index 16 or above:
  two responses with the same count and the same first 16 slots print the same. With
  \<open>nruhsd = 0\<close> the step prints nothing, not even the header.
\<close>

theorem descriptors_clamped:
  "ruh_loop st 0 = [0..<min (unat (nruhsd st)) 16] \<and>
   length (ruh_loop st 0) = min (unat (nruhsd st)) 16 \<and>
   (\<forall>i\<in>set (ruh_loop st 0). i < 16) \<and>
   (nruhsd st = 200 \<longrightarrow> length (ruh_loop st 0) = 16) \<and>
   (nruhsd st = 0 \<longrightarrow> print_ruh_status st = []) \<and>
   (nruhsd st \<noteq> 0 \<longrightarrow>
      print_ruh_status st =
        [Printf ''\<newline>=== RUH Status ===\<newline>'' [],
         Printf ''Number of RUH Status Descriptors: %d\<newline>'' [I (uint (nruhsd st))],
         Printf ''PID  RUHID  EARUTR  RUAMW\<newline>'' [],
         Printf ''---  -----  ------  -----\<newline>'' []] @
        map (\<lambda>i. Printf ''%3d  %5d  %6d  %5ld\<newline>''
                   [I (uint (pid (ruhss st ! i))),
                    I (uint (ruhid (ruhss st ! i))),
                    I (sint (earutr (ruhss st ! i))),
                    I (sint (ruamw (ruhss st ! i)))])
            [0..<min (unat (nruhsd st)) 16]) \<and>
   length (print_ruh_status st) =
     (if nruhsd st = 0 then 0 else 4 + min (unat (nruhsd st)) 16) \<and>
   (nruhsd st' = nruhsd st \<and> take 16 (ruhss st') = take 16 (ruhss st) \<longrightarrow>
      print_ruh_status st' = print_ruh_status st)"
proof -
  have l: "ruh_loop st 0 = [0..<min (unat (nruhsd st)) 16]"
    by (rule ruh_loop_eq)
  have r: "print_ruh_status st' = print_ruh_status st"
    if n: "nruhsd st' = nruhsd st" and t: "take 16 (ruhss st') = take 16 (ruhss st)"
  proof -
    have "ruhss st' ! i = ruhss st ! i" if "i < 16" for i
    proof -
      from that have "ruhss st' ! i = take 16 (ruhss st') ! i" by simp
      also have "\<dots> = take 16 (ruhss st) ! i" by (simp only: t)
      also from that have "\<dots> = ruhss st ! i" by simp
      finally show ?thesis .
    qed
    then show ?thesis
      unfolding print_ruh_status_rows n by simp
  qed
  have "nruhsd st = 200 \<longrightarrow> length (ruh_loop st 0) = 16"
    by (simp add: l)
  moreover have "length (print_ruh_status st) =
     (if nruhsd st = 0 then 0 else 4 + min (unat (nruhsd st)) 16)"
    by (simp add: print_ruh_status_rows)
  moreover note r
  ultimately show ?thesis
    by (simp add: l print_ruh_status_rows)
qed

theorem descriptors_clamped_witness:
  "nruhsd sample_status = 200 \<and>
   length (ruh_loop sample_status 0) = 16 \<and>
   15 \<in> set (ruh_loop sample_status 0) \<and> (15 :: nat) < 16 \<and>
   16 \<notin> set (ruh_loop sample_status 0) \<and>
   length (print_ruh_status sample_status) = 4 + 16 \<and>
   nruhsd (sample_status\<lparr>nruhsd := 0\<rparr>) = 0 \<and>
   print_ruh_status (sample_status\<lparr>nruhsd := 0\<rparr>) = [] \<and>
   nruhsd (sample_status\<lparr>nruhsd := 1\<rparr>) \<noteq> 0 \<and>
   print_ruh_status (sample_status\<lparr>nruhsd := 1\<rparr>) =
     [Printf ''\<newline>=== RUH Status ===\<newline>'' [],
      Printf ''Number of RUH Status Descriptors: %d\<newline>'' [I 1],
      Printf ''PID  RUHID  EARUTR  RUAMW\<newline>'' [],
      Printf ''---  -----  ------  -----\<newline>'' [],
      Printf ''%3d  %5d  %6d  %5ld\<newline>'' [I 7, I 3, I (- 1), I 4096]] \<and>
   nruhsd (sample_status\<lparr>ruhss := ruhss sample_status @ [\<lparr>pid = 0, ruhid = 0, earutr = 0, ruamw = 0\<rparr>]\<rparr>) =
     nruhsd sample_status \<and>
   take 16 (ruhss (sample_status\<lparr>ruhss := ruhss sample_status @
       [\<lparr>pid = 0, ruhid = 0, earutr = 0, ruamw = 0\<rparr>]\<rparr>)) = take 16 (ruhss sample_status) \<and>
   print_ruh_status (sample_status\<lparr>ruhss := ruhss sample_status @
       [\<lparr>pid = 0, ruhid = 0, earutr = 0, ruamw = 0\<rparr>]\<rparr>) = print_ruh_status sample_status"
  using descriptors_clamped [where st = sample_status
      and st' = "sample_status\<lparr>ruhss := ruhss sample_status @
        [\<lparr>pid = 0, ruhid = 0, earutr = 0, ruamw = 0\<rparr>]\<rparr>"]
    descriptors_clamped [where st = "sample_status\<lparr>nruhsd := 0\<rparr>" and st' = sample_status]
    descriptors_clamped [where st = "sample_status\<lparr>nruhsd := 1\<rparr>" and st' = sample_status]
  by (simp add: sample_status_def sample_desc_def)

text \<open>
  C9. With \<open>-h\<close> or \<open>--help\<close> as the only argument the flag is not parsed: \<open>main\<close> runs
  exactly as for a device of that name with \<open>--reset\<close>. The run starts with the banner
  for that device in reset mode and the attempt to open it, and the usage line is
  never printed. When the open fails, the run is the banner, the open, the three error
  lines and \<open>xnvme_cli_perr\<close>, and it returns 1. When a device of that name opens, the
  run goes on, and it returns 0 if the queues, the buffer and the context are obtained:
  the status is 1 only on the failure of the open (or of a later setup step).
\<close>

theorem lone_help_is_device_path:
  "h \<in> {''-h'', ''--help''} \<Longrightarrow>
   main prog [h] env = main prog [h, ''--reset''] env \<and>
   (\<exists>rest. fst (main prog [h] env) =
      [Printf ''=== FEMU FDP Statistics ===\<newline>'' [],
       Printf ''Device: %s\<newline>'' [S h],
       Printf ''Mode: %s (MO=0x%x)\<newline>'' [S ''RESET'', I 2],
       Printf ''===========================\<newline>\<newline>'' [],
       XDevOpen h ''io_uring'' 0] @ rest) \<and>
   Eprintf ''Usage: %s <device> [--reset|--read-only]\<newline>\<newline>'' [S prog]
     \<notin> set (fst (main prog [h] env)) \<and>
   main prog [h] env \<noteq> (print_usage prog, Exit 0) \<and>
   (\<not> dev_open env h \<longrightarrow>
      main prog [h] env =
        ([Printf ''=== FEMU FDP Statistics ===\<newline>'' [],
          Printf ''Device: %s\<newline>'' [S h],
          Printf ''Mode: %s (MO=0x%x)\<newline>'' [S ''RESET'', I 2],
          Printf ''===========================\<newline>\<newline>'' [],
          XDevOpen h ''io_uring'' 0,
          Eprintf ''Error: Failed to open device '%s'\<newline>'' [S h],
          Eprintf ''Hint: Try running with sudo, or check if the device exists.\<newline>'' [],
          Eprintf ''Hint: You can verify with: xnvme info %s\<newline>'' [S h],
          XCliPerr ''xnvme_dev_open()'' (open_errno env)], Exit 1)) \<and>
   (dev_open env h \<and> queues_init_ok env \<and> buf_alloc env \<and> get_cmd_ctx env \<longrightarrow>
      snd (main prog [h] env) = Exit 0)"
proof -
  assume h: "h \<in> {''-h'', ''--help''}"
  have r: "runs_command [h]"
    by (simp add: runs_command_def)
  have m: "main prog [h] env = main_open h NVME_IOMS_MO_SUNGJIN ''RESET'' env"
    by (simp add: main_def)
  have m2: "main prog [h, ''--reset''] env = main_open h NVME_IOMS_MO_SUNGJIN ''RESET'' env"
    by (simp add: main_def parse_flag_def)
  have p: "\<exists>rest. fst (main_open h NVME_IOMS_MO_SUNGJIN ''RESET'' env) =
      [Printf ''=== FEMU FDP Statistics ===\<newline>'' [],
       Printf ''Device: %s\<newline>'' [S h],
       Printf ''Mode: %s (MO=0x%x)\<newline>'' [S ''RESET'', I 2],
       Printf ''===========================\<newline>\<newline>'' [],
       XDevOpen h ''io_uring'' 0] @ rest"
    by (simp add: main_open_def pre_def print_banner_def NVME_IOMS_MO_SUNGJIN_def)
  then have n: "main_open h NVME_IOMS_MO_SUNGJIN ''RESET'' env \<noteq> (print_usage prog, Exit 0)"
    by (auto simp: print_usage_def)
  have u: "Eprintf ''Usage: %s <device> [--reset|--read-only]\<newline>\<newline>'' [S prog]
     \<notin> set (fst (main prog [h] env))"
    using r by (rule usage_line_not_in_run)
  have f: "\<not> dev_open env h \<longrightarrow>
      main_open h NVME_IOMS_MO_SUNGJIN ''RESET'' env =
        ([Printf ''=== FEMU FDP Statistics ===\<newline>'' [],
          Printf ''Device: %s\<newline>'' [S h],
          Printf ''Mode: %s (MO=0x%x)\<newline>'' [S ''RESET'', I 2],
          Printf ''===========================\<newline>\<newline>'' [],
          XDevOpen h ''io_uring'' 0,
          Eprintf ''Error: Failed to open device '%s'\<newline>'' [S h],
          Eprintf ''Hint: Try running with sudo, or check if the device exists.\<newline>'' [],
          Eprintf ''Hint: You can verify with: xnvme info %s\<newline>'' [S h],
          XCliPerr ''xnvme_dev_open()'' (open_errno env)], Exit 1)"
    by (simp add: run_open_failed NVME_IOMS_MO_SUNGJIN_def print_banner_def
        print_open_failed_def)
  have e: "dev_open env h \<and> queues_init_ok env \<and> buf_alloc env \<and> get_cmd_ctx env \<longrightarrow>
      snd (main_open h NVME_IOMS_MO_SUNGJIN ''RESET'' env) = Exit 0"
    by (simp add: main_open_exit)
  from p n u f e show ?thesis
    unfolding m m2 [symmetric] m by simp
qed

theorem lone_help_is_device_path_witness:
  "''-h'' \<in> {''-h'', ''--help''} \<and> \<not> dev_open sample_env ''-h'' \<and>
   main ''fdp_stats'' [''-h''] sample_env =
     ([Printf ''=== FEMU FDP Statistics ===\<newline>'' [],
       Printf ''Device: %s\<newline>'' [S ''-h''],
       Printf ''Mode: %s (MO=0x%x)\<newline>'' [S ''RESET'', I 2],
       Printf ''===========================\<newline>\<newline>'' [],
       XDevOpen ''-h'' ''io_uring'' 0,
       Eprintf ''Error: Failed to open device '%s'\<newline>'' [S ''-h''],
       Eprintf ''Hint: Try running with sudo, or check if the device exists.\<newline>'' [],
       Eprintf ''Hint: You can verify with: xnvme info %s\<newline>'' [S ''-h''],
       XCliPerr ''xnvme_dev_open()'' 2], Exit 1) \<and>
   dev_open sample_env_dash_h ''-h'' \<and> queues_init_ok sample_env_dash_h \<and>
   buf_alloc sample_env_dash_h \<and> get_cmd_ctx sample_env_dash_h \<and>
   snd (main ''fdp_stats'' [''-h''] sample_env_dash_h) = Exit 0"
proof -
  have a: "''-h'' \<in> {''-h'', ''--help''}" by simp
  have b: "\<not> dev_open sample_env ''-h''" "open_errno sample_env = 2"
    by (simp_all add: sample_env_def)
  have c: "dev_open sample_env_dash_h ''-h''" "queues_init_ok sample_env_dash_h"
    "buf_alloc sample_env_dash_h" "get_cmd_ctx sample_env_dash_h"
    by (simp_all add: sample_env_dash_h_def sample_env_def queues_init_ok_def)
  from lone_help_is_device_path [OF a, of "''fdp_stats''" sample_env]
  have "\<not> dev_open sample_env ''-h'' \<longrightarrow>
      main ''fdp_stats'' [''-h''] sample_env =
        ([Printf ''=== FEMU FDP Statistics ===\<newline>'' [],
          Printf ''Device: %s\<newline>'' [S ''-h''],
          Printf ''Mode: %s (MO=0x%x)\<newline>'' [S ''RESET'', I 2],
          Printf ''===========================\<newline>\<newline>'' [],
          XDevOpen ''-h'' ''io_uring'' 0,
          Eprintf ''Error: Failed to open device '%s'\<newline>'' [S ''-h''],
          Eprintf ''Hint: Try running with sudo, or check if the device exists.\<newline>'' [],
          Eprintf ''Hint: You can verify with: xnvme info %s\<newline>'' [S ''-h''],
          XCliPerr ''xnvme_dev_open()'' (open_errno sample_env)], Exit 1)"
    by (elim conjE)
  with b have x: "main ''fdp_stats'' [''-h''] sample_env =
        ([Printf ''=== FEMU FDP Statistics ===\<newline>'' [],
          Printf ''Device: %s\<newline>'' [S ''-h''],
          Printf ''Mode: %s (MO=0x%x)\<newline>'' [S ''RESET'', I 2],
          Printf ''===========================\<newline>\<newline>'' [],
          XDevOpen ''-h'' ''io_uring'' 0,
          Eprintf ''Error: Failed to open device '%s'\<newline>'' [S ''-h''],
          Eprintf ''Hint: Try running with sudo, or check if the device exists.\<newline>'' [],
          Eprintf ''Hint: You can verify with: xnvme info %s\<newline>'' [S ''-h''],
          XCliPerr ''xnvme_dev_open()'' 2], Exit 1)"
    by simp
  from lone_help_is_device_path [OF a, of "''fdp_stats''" sample_env_dash_h]
  have "dev_open sample_env_dash_h ''-h'' \<and> queues_init_ok sample_env_dash_h \<and>
      buf_alloc sample_env_dash_h \<and> get_cmd_ctx sample_env_dash_h \<longrightarrow>
      snd (main ''fdp_stats'' [''-h''] sample_env_dash_h) = Exit 0"
    by (elim conjE)
  with c have y: "snd (main ''fdp_stats'' [''-h''] sample_env_dash_h) = Exit 0"
    by simp
  from a b c x y show ?thesis
    by (intro conjI)
qed

text \<open>
  C9, as it was worded, fails: on a run in which a device named \<open>-h\<close> opens, a lone
  \<open>-h\<close> does not take the open-failure path; the reset command is run and the status
  is 0.
\<close>

theorem lone_help_exit_0_counterexample:
  "dev_open sample_env_dash_h ''-h'' \<and>
   snd (main ''fdp_stats'' [''-h''] sample_env_dash_h) = Exit 0 \<and>
   snd (main ''fdp_stats'' [''-h''] sample_env_dash_h) \<noteq> Exit 1 \<and>
   Eprintf ''Error: Failed to open device '%s'\<newline>'' [S ''-h'']
     \<notin> set (fst (main ''fdp_stats'' [''-h''] sample_env_dash_h)) \<and>
   XMgmtSend 0 1 2 1 LocalRuhStatus sizeof_ruh_status
     \<in> set (fst (main ''fdp_stats'' [''-h''] sample_env_dash_h))"
proof -
  have s: "setup_ok [''-h''] sample_env_dash_h" and c: "get_cmd_ctx sample_env_dash_h"
    and o: "dev_open sample_env_dash_h ''-h''"
    by (simp_all add: setup_ok_def runs_command_def queues_init_ok_def sample_env_dash_h_def
        sample_env_def)
  have x: "snd (main ''fdp_stats'' [''-h''] sample_env_dash_h) = Exit 0"
    using s c by (simp add: setup_ok_run)
  have "Eprintf ''Error: Failed to open device '%s'\<newline>'' [S ''-h'']
     \<notin> set (filter is_stderr (fst (main ''fdp_stats'' [''-h''] sample_env_dash_h)))"
    unfolding main_stderr_setup_ok [OF s c] by auto
  then have e: "Eprintf ''Error: Failed to open device '%s'\<newline>'' [S ''-h'']
     \<notin> set (fst (main ''fdp_stats'' [''-h''] sample_env_dash_h))"
    by simp
  have "XMgmtSend 0 1 2 1 LocalRuhStatus sizeof_ruh_status
     \<in> set (filter is_mgmt_send (fst (main ''fdp_stats'' [''-h''] sample_env_dash_h)))"
    unfolding main_mgmt_send using s c
    by (simp add: sample_env_dash_h_def sample_env_def spec_op_code_def)
  then have g: "XMgmtSend 0 1 2 1 LocalRuhStatus sizeof_ruh_status
     \<in> set (fst (main ''fdp_stats'' [''-h''] sample_env_dash_h))"
    by simp
  from o x e g show ?thesis by simp
qed



text \<open>
  The sibling failure path: when the buffer is not allocated, every queue is terminated
  before the device is closed.
\<close>

lemma alloc_failure_terminates_all_queues:
  "runs_command args \<Longrightarrow> dev_open env (args ! 0) \<Longrightarrow> queues_init_ok env \<Longrightarrow>
   \<not> buf_alloc env \<Longrightarrow>
   filter is_queue_term (fst (main prog args env)) = map XQueueTerm [0..<MAX_NR_QUEUE] \<and>
   (\<exists>m. fst (main prog args env) = m @ map XQueueTerm [0..<MAX_NR_QUEUE] @ [XDevClose])"
  by (simp add: main_runs run_alloc_failed filter_blocks)

text \<open>
  C1. When the device opens and the initialization of queue \<open>k\<close> is the first to fail,
  the run makes the \<open>k + 1\<close> initialization calls, prints the error, closes the device
  and returns 1. It terminates no queue: queues \<open>0 .. k - 1\<close> stay created. (The
  buffer-allocation failure path and the cleanup do terminate every queue before the
  close.)
\<close>

theorem init_failure_terminates_no_queue:
  "runs_command args \<Longrightarrow> dev_open env (args ! 0) \<Longrightarrow> init_fails_at env k \<Longrightarrow>
   filter is_queue_init (fst (main prog args env)) =
     map (XQueueInit MAX_NR_QUEUE 0) [0..<Suc k] \<and>
   filter is_queue_term (fst (main prog args env)) = [] \<and>
   (\<exists>m. fst (main prog args env) =
      m @ [Eprintf ''Error: Failed to initialize queue %d\<newline>'' [I (int k)], XDevClose]) \<and>
   snd (main prog args env) = Exit 1"
  by (simp add: main_runs run_init_failed filter_blocks)

theorem init_failure_terminates_no_queue_witness:
  "runs_command [''/dev/ng0n1''] \<and> dev_open sample_env_init_fail ([''/dev/ng0n1''] ! 0) \<and>
   init_fails_at sample_env_init_fail 1 \<and>
   filter is_queue_init (fst (main ''fdp_stats'' [''/dev/ng0n1''] sample_env_init_fail)) =
     [XQueueInit MAX_NR_QUEUE 0 0, XQueueInit MAX_NR_QUEUE 0 1] \<and>
   filter is_queue_term (fst (main ''fdp_stats'' [''/dev/ng0n1''] sample_env_init_fail)) = [] \<and>
   snd (main ''fdp_stats'' [''/dev/ng0n1''] sample_env_init_fail) = Exit 1"
proof -
  have a: "runs_command [''/dev/ng0n1'']"
    by (simp add: runs_command_def)
  have b: "dev_open sample_env_init_fail ([''/dev/ng0n1''] ! 0)"
    by (simp add: sample_env_init_fail_def sample_env_def)
  have c: "init_fails_at sample_env_init_fail 1"
    by (simp add: init_fails_at_def sample_env_init_fail_def MAX_NR_QUEUE_def)
  from init_failure_terminates_no_queue [OF a b c, of "''fdp_stats''"] a b c
  show ?thesis
    by (simp add: upt_rec)
qed

end
